theory Spec2Isabelle
  imports Main
begin

text \<open>
  A model of the offline-first synchronization code of the application: the failure
  classifier and the synchronization tick of \<open>AppComponent\<close>
  (\<open>app.component.ts\<close>), the exception-log store behind \<open>StorageFacade\<close>, and the
  job scheduler \<open>CronService\<close>. State is passed explicitly; what the environment
  decides (the clock, \<open>navigator.onLine\<close>, whether an action or a gateway call succeeds,
  and the order in which pending callbacks run) is an argument or an event.
\<close>

section \<open>Strings as the classifier reads them\<close>

text \<open>
  JavaScript strings are modelled as \<open>string\<close> (a list of 8-bit characters).
  \<open>toLowerCase\<close> is modelled on the ASCII letters; every needle the classifier
  searches for is ASCII.
\<close>

definition lowerChar :: "char \<Rightarrow> char" where
  "lowerChar c =
     (let n = (of_char c :: nat) in if 65 \<le> n \<and> n \<le> 90 then char_of (n + 32) else c)"

definition toLowerCase :: "string \<Rightarrow> string" where
  "toLowerCase s = map lowerChar s"

fun startsWith :: "string \<Rightarrow> string \<Rightarrow> bool" where
  "startsWith s [] = True"
| "startsWith [] (c # cs) = False"
| "startsWith (x # xs) (c # cs) = (x = c \<and> startsWith xs cs)"

text \<open>\<open>String.prototype.includes\<close>: the needle occurs as a contiguous substring.\<close>

fun includesStr :: "string \<Rightarrow> string \<Rightarrow> bool" where
  "includesStr [] sub = (sub = [])"
| "includesStr (x # xs) sub = (startsWith (x # xs) sub \<or> includesStr xs sub)"

text \<open>Decimal rendering of a non-negative integer, as a template literal prints it.\<close>

fun digitsFuel :: "nat \<Rightarrow> nat \<Rightarrow> string" where
  "digitsFuel 0 n = []"
| "digitsFuel (Suc f) n =
     (if n < 10 then [char_of (48 + n)]
      else digitsFuel f (n div 10) @ [char_of (48 + n mod 10)])"

definition showNat :: "nat \<Rightarrow> string" where
  "showNat n = digitsFuel (Suc n) n"

section \<open>Failure classification (app.component.ts, getErrorType and getErrorCode)\<close>

text \<open>
  The caught error is read only through \<open>error?.message\<close>; it is modelled as
  \<open>string option\<close>, \<open>None\<close> when the error or its message is absent.
  \<open>x || d\<close> on strings takes \<open>d\<close> when \<open>x\<close> is absent or empty.
\<close>

definition orElse :: "string \<Rightarrow> string \<Rightarrow> string" where
  "orElse x d = (if x = [] then d else x)"

definition errorMessageLower :: "string option \<Rightarrow> string" where
  "errorMessageLower err = (case err of None \<Rightarrow> [] | Some m \<Rightarrow> orElse (toLowerCase m) [])"

definition getErrorType :: "bool \<Rightarrow> string option \<Rightarrow> string" where
  "getErrorType onLine err =
     (let errorMessage = errorMessageLower err in
      if \<not> onLine \<or> includesStr errorMessage ''network''
           \<or> includesStr errorMessage ''failed to fetch''
      then ''NetworkOfflineError''
      else if includesStr errorMessage ''timeout'' then ''TimeoutError''
      else if includesStr errorMessage ''400'' \<or> includesStr errorMessage ''bad request''
      then ''BadRequestError''
      else if includesStr errorMessage ''401'' \<or> includesStr errorMessage ''unauthorized''
      then ''UnauthorizedError''
      else if includesStr errorMessage ''403'' \<or> includesStr errorMessage ''forbidden''
      then ''ForbiddenError''
      else if includesStr errorMessage ''404'' \<or> includesStr errorMessage ''not found''
      then ''NotFoundError''
      else if includesStr errorMessage ''500'' \<or> includesStr errorMessage ''internal server''
      then ''ServerError''
      else ''SyncError'')"

definition errorCodes :: "(string \<times> string) list" where
  "errorCodes =
     [(''NetworkOfflineError'', ''SYNC_NET_001''),
      (''TimeoutError'', ''SYNC_TMO_001''),
      (''BadRequestError'', ''SYNC_REQ_400''),
      (''UnauthorizedError'', ''SYNC_AUT_401''),
      (''ForbiddenError'', ''SYNC_FOR_403''),
      (''NotFoundError'', ''SYNC_NTF_404''),
      (''ServerError'', ''SYNC_SRV_500''),
      (''SyncError'', ''SYNC_ERR_001'')]"

text \<open>
  \<open>errorCodes[errorType] || 'SYNC_UNK_999'\<close>, on the table's own keys (the only
  arguments \<open>getErrorType\<close> produces).
\<close>

definition getErrorCode :: "string \<Rightarrow> string" where
  "getErrorCode errorType =
     (case map_of errorCodes errorType of None \<Rightarrow> ''SYNC_UNK_999'' | Some c \<Rightarrow> orElse c ''SYNC_UNK_999'')"

section \<open>Local time (the Date arithmetic of addDailyJob)\<close>

text \<open>
  An instant is its number of milliseconds on the local time line, with days of
  24 hours counted from local midnight. \<open>new Date(y, m, d, hour, minute, 0, 0)\<close>
  on today's date is then local midnight plus the offset of \<open>hour:minute\<close>, and
  \<open>setDate(getDate() + 1)\<close> adds one day.
\<close>

definition msPerDay :: int where
  "msPerDay = 24 * 60 * 60 * 1000"

definition dayOf :: "int \<Rightarrow> int" where
  "dayOf t = t div msPerDay"


definition atTime :: "int \<Rightarrow> int \<Rightarrow> int \<Rightarrow> int" where
  "atTime day hour minute = day * msPerDay + hour * 3600000 + minute * 60000"

definition getNextRun :: "int \<Rightarrow> int \<Rightarrow> int \<Rightarrow> int" where
  "getNextRun now hour minute =
     (let scheduled = atTime (dayOf now) hour minute in
      if scheduled \<le> now then scheduled + msPerDay else scheduled)"

section \<open>The scheduler (CronService)\<close>

text \<open>
  The user action \<open>onTick\<close> is opaque: each invocation either returns (or its
  promise resolves) or throws (or rejects) with an error, as the environment decides.
\<close>

datatype outcome = Returns | Throws string

text \<open>
  \<open>options?: CronJobOptions\<close>; an absent field is \<open>None\<close> and absent options are
  the record of absent fields. Of \<open>onError\<close> only its presence matters here: the calls
  it receives are recorded in the state.
\<close>

record CronJobOptions =
  autoStart :: "bool option"
  runOnInit :: "bool option"
  maxRuns :: "int option"
  onError :: bool

text \<open>
  The variables a \<open>wrappedOnTick\<close> closure captures. Its own counter
  \<open>let runCount = 0\<close> lives in the state under \<open>cid\<close>.
\<close>

record intervalClosure =
  cid :: nat
  cname :: string
  cinterval :: int
  copts :: CronJobOptions

record dailyClosure =
  dname :: string
  dhour :: int
  dminute :: int

datatype callback =
    WrappedOnTick intervalClosure
  | ScheduleNext dailyClosure
  | DailyTimeout dailyClosure

datatype timerKind = Repeating | OneShot

record CronJobWrapper =
  name :: string
  intervalId :: "nat option"
  interval :: int
  runCount :: nat
  lastRun :: "int option"
  nextRun :: "int option"
  isRunning :: bool
  onTick :: callback
  options :: CronJobOptions

text \<open>
  The service's \<open>jobs\<close> map, the browser's table of live timers
  (\<open>setInterval\<close>/\<open>setTimeout\<close> handles), the closures' counters, and two
  observation fields: how often each closure invoked its action, and the errors handed
  to \<open>onError\<close>.
\<close>

record cron =
  jobs :: "string \<rightharpoonup> CronJobWrapper"
  timers :: "nat \<rightharpoonup> timerKind \<times> callback"
  nextHandle :: nat
  runCountVar :: "nat \<Rightarrow> nat"
  nextClosure :: nat
  invoked :: "nat \<Rightarrow> nat"
  reported :: "string list"

definition emptyCron :: cron where
  "emptyCron = \<lparr>jobs = Map.empty, timers = Map.empty, nextHandle = 1,
     runCountVar = (\<lambda>_. 0), nextClosure = 0, invoked = (\<lambda>_. 0), reported = []\<rparr>"

definition clearTimer :: "nat \<Rightarrow> cron \<Rightarrow> cron" where
  "clearTimer h s = s\<lparr>timers := (timers s)(h := None)\<rparr>"

definition setTimer :: "timerKind \<Rightarrow> callback \<Rightarrow> cron \<Rightarrow> nat \<times> cron" where
  "setTimer k cb s =
     (nextHandle s, s\<lparr>timers := (timers s)(nextHandle s \<mapsto> (k, cb)), nextHandle := nextHandle s + 1\<rparr>)"

definition startJob :: "string \<Rightarrow> int \<Rightarrow> cron \<Rightarrow> cron" where
  "startJob nm now s =
     (case jobs s nm of
        None \<Rightarrow> s
      | Some wrapper \<Rightarrow>
          if isRunning wrapper then s
          else (case setTimer Repeating (onTick wrapper) s of
                  (h, s') \<Rightarrow>
                    s'\<lparr>jobs := (jobs s')(nm \<mapsto> wrapper\<lparr>intervalId := Some h, isRunning := True,
                         nextRun := Some (now + interval wrapper)\<rparr>)\<rparr>))"

text \<open>
  \<open>if (wrapper.intervalId)\<close> is a truthiness test: \<open>null\<close> and the number 0 fail it.
  (Browsers hand out positive handles; \<open>emptyCron\<close> starts at 1.)
\<close>

definition stopJob :: "string \<Rightarrow> cron \<Rightarrow> cron" where
  "stopJob nm s =
     (case jobs s nm of
        None \<Rightarrow> s
      | Some wrapper \<Rightarrow>
          if \<not> isRunning wrapper then s
          else (case (case intervalId wrapper of
                        None \<Rightarrow> (s, wrapper)
                      | Some h \<Rightarrow>
                          if h \<noteq> 0 then (clearTimer h s, wrapper\<lparr>intervalId := None\<rparr>)
                          else (s, wrapper)) of
                  (s', wrapper') \<Rightarrow>
                    s'\<lparr>jobs := (jobs s')(nm \<mapsto> wrapper'\<lparr>isRunning := False, nextRun := None\<rparr>)\<rparr>))"

definition removeJob :: "string \<Rightarrow> cron \<Rightarrow> cron" where
  "removeJob nm s =
     (case jobs s nm of
        None \<Rightarrow> s
      | Some wrapper \<Rightarrow> (let s' = stopJob nm s in s'\<lparr>jobs := (jobs s')(nm := None)\<rparr>))"

text \<open>\<open>maxRuns && runCount >= maxRuns\<close>: an absent or zero \<open>maxRuns\<close> is falsy.\<close>

definition maxRunsReached :: "int option \<Rightarrow> nat \<Rightarrow> bool" where
  "maxRunsReached mr rc = (case mr of None \<Rightarrow> False | Some m \<Rightarrow> m \<noteq> 0 \<and> m \<le> int rc)"

text \<open>
  \<open>wrappedOnTick\<close> up to \<open>await onTick()\<close>: the guard, then the action is invoked.
  The result says whether the action was invoked.
\<close>

definition wrappedOnTick_call :: "intervalClosure \<Rightarrow> cron \<Rightarrow> bool \<times> cron" where
  "wrappedOnTick_call c s =
     (if maxRunsReached (maxRuns (copts c)) (runCountVar s (cid c))
      then (False, stopJob (cname c) s)
      else (True, s\<lparr>invoked := (invoked s)(cid c := invoked s (cid c) + 1)\<rparr>))"

text \<open>\<open>wrappedOnTick\<close> after the action has settled: the rest of the try, or the catch.\<close>

definition wrappedOnTick_resume :: "intervalClosure \<Rightarrow> outcome \<Rightarrow> int \<Rightarrow> cron \<Rightarrow> cron" where
  "wrappedOnTick_resume c out now s =
     (case out of
        Returns \<Rightarrow>
          (let rc = runCountVar s (cid c) + 1;
               s' = s\<lparr>runCountVar := (runCountVar s)(cid c := rc)\<rparr>
           in case jobs s' (cname c) of
                None \<Rightarrow> s'
              | Some job \<Rightarrow>
                  s'\<lparr>jobs := (jobs s')(cname c \<mapsto> job\<lparr>runCount := rc, lastRun := Some now,
                       nextRun := Some (now + cinterval c)\<rparr>)\<rparr>)
      | Throws e \<Rightarrow> (if onError (copts c) then s\<lparr>reported := reported s @ [e]\<rparr> else s))"

text \<open>A tick whose action settles before anything else runs.\<close>

definition wrappedOnTick :: "intervalClosure \<Rightarrow> outcome \<Rightarrow> int \<Rightarrow> cron \<Rightarrow> cron" where
  "wrappedOnTick c out now s =
     (case wrappedOnTick_call c s of
        (False, s') \<Rightarrow> s'
      | (True, s') \<Rightarrow> wrappedOnTick_resume c out now s')"

definition newClosure :: "string \<Rightarrow> int \<Rightarrow> CronJobOptions \<Rightarrow> cron \<Rightarrow> intervalClosure" where
  "newClosure nm iv opts s = \<lparr>cid = nextClosure s, cname = nm, cinterval = iv, copts = opts\<rparr>"

definition addIntervalJob :: "string \<Rightarrow> int \<Rightarrow> CronJobOptions \<Rightarrow> int \<Rightarrow> cron \<Rightarrow> cron" where
  "addIntervalJob nm iv opts now s0 =
     (let s1 = (if jobs s0 nm \<noteq> None then removeJob nm s0 else s0);
          c = newClosure nm iv opts s1;
          s2 = s1\<lparr>nextClosure := nextClosure s1 + 1,
                  runCountVar := (runCountVar s1)(nextClosure s1 := 0)\<rparr>;
          wrapper = \<lparr>name = nm, intervalId = None, interval = iv, runCount = 0,
                     lastRun = None, nextRun = None, isRunning = False,
                     onTick = WrappedOnTick c, options = opts\<rparr>;
          s3 = s2\<lparr>jobs := (jobs s2)(nm \<mapsto> wrapper)\<rparr>;
          s4 = (if runOnInit opts = Some True then snd (wrappedOnTick_call c s3) else s3)
      in if autoStart opts \<noteq> Some False then startJob nm now s4 else s4)"

text \<open>The closure that \<open>addIntervalJob\<close> creates in state \<open>s0\<close>.\<close>

definition closureOf :: "string \<Rightarrow> int \<Rightarrow> CronJobOptions \<Rightarrow> cron \<Rightarrow> intervalClosure" where
  "closureOf nm iv opts s0 =
     newClosure nm iv opts (if jobs s0 nm \<noteq> None then removeJob nm s0 else s0)"

definition scheduleNext :: "dailyClosure \<Rightarrow> int \<Rightarrow> cron \<Rightarrow> cron" where
  "scheduleNext d now s =
     (let nr = getNextRun now (dhour d) (dminute d) in
      case jobs s (dname d) of
        None \<Rightarrow> s
      | Some wrapper \<Rightarrow>
          (case setTimer OneShot (DailyTimeout d) s of
             (h, s') \<Rightarrow>
               s'\<lparr>jobs := (jobs s')(dname d \<mapsto> wrapper\<lparr>nextRun := Some nr, intervalId := Some h,
                    isRunning := True\<rparr>)\<rparr>))"

text \<open>
  The body of the \<open>setTimeout\<close> callback. A rejected \<open>await onTick()\<close> leaves the
  callback before it reaches \<open>scheduleNext()\<close>.
\<close>

definition dailyTimeout :: "dailyClosure \<Rightarrow> outcome \<Rightarrow> int \<Rightarrow> cron \<Rightarrow> cron" where
  "dailyTimeout d out now s =
     (case out of
        Throws e \<Rightarrow> s
      | Returns \<Rightarrow>
          scheduleNext d now
            (case jobs s (dname d) of
               None \<Rightarrow> s
             | Some job \<Rightarrow>
                 s\<lparr>jobs := (jobs s)(dname d \<mapsto> job\<lparr>runCount := runCount job + 1,
                      lastRun := Some now\<rparr>)\<rparr>))"

definition addDailyJob :: "string \<Rightarrow> int \<Rightarrow> int \<Rightarrow> CronJobOptions \<Rightarrow> int \<Rightarrow> cron \<Rightarrow> cron" where
  "addDailyJob nm hour minute opts now s =
     (let d = \<lparr>dname = nm, dhour = hour, dminute = minute\<rparr>;
          wrapper = \<lparr>name = nm, intervalId = None, interval = 24 * 60 * 60 * 1000, runCount = 0,
                     lastRun = None, nextRun = Some (getNextRun now hour minute),
                     isRunning = False, onTick = ScheduleNext d, options = opts\<rparr>;
          s1 = s\<lparr>jobs := (jobs s)(nm \<mapsto> wrapper)\<rparr>
      in if autoStart opts \<noteq> Some False then scheduleNext d now s1 else s1)"

text \<open>
  A live timer fires and its callback runs with the action settling at once; a one-shot
  timer is spent by firing. A handle that is not live fires nothing.
\<close>

definition timerFires :: "nat \<Rightarrow> outcome \<Rightarrow> int \<Rightarrow> cron \<Rightarrow> cron" where
  "timerFires h out now s =
     (case timers s h of
        None \<Rightarrow> s
      | Some (k, cb) \<Rightarrow>
          (let s' = (if k = OneShot then clearTimer h s else s) in
           case cb of
             WrappedOnTick c \<Rightarrow> wrappedOnTick c out now s'
           | ScheduleNext d \<Rightarrow> scheduleNext d now s'
           | DailyTimeout d \<Rightarrow> dailyTimeout d out now s'))"

text \<open>A run of ticks of one closure, each with its action's outcome and the clock.\<close>

fun runTicks :: "intervalClosure \<Rightarrow> (outcome \<times> int) list \<Rightarrow> cron \<Rightarrow> cron" where
  "runTicks c [] s = s"
| "runTicks c ((out, now) # rest) s = runTicks c rest (wrappedOnTick c out now s)"

text \<open>The ticks of such a run at which the action was invoked and returned.\<close>

fun succeeded :: "intervalClosure \<Rightarrow> (outcome \<times> int) list \<Rightarrow> cron \<Rightarrow> nat" where
  "succeeded c [] s = 0"
| "succeeded c ((out, now) # rest) s =
     (if fst (wrappedOnTick_call c s) \<and> out = Returns then 1 else 0)
       + succeeded c rest (wrappedOnTick c out now s)"


section \<open>The Record Store (RxDbExceptionLogRepository behind StorageFacade)\<close>

text \<open>
  The domain model \<open>ExceptionLog\<close>; its field \<open>id\<close> is \<open>logId\<close> here. A
  \<open>Date\<close> is its instant in milliseconds,
  \<open>None\<close> for a missing value or an Invalid Date. The request sent to the API has
  the same fields; its ISO timestamp is kept as the instant it denotes.
\<close>

record ExceptionLog =
  logId :: string
  message :: string
  serviceName :: string
  errorType :: string
  code :: string
  timestamp :: "int option"
  parkingDoorNumber :: string
  isSynced :: bool

text \<open>The \<open>exception_logs\<close> collection; \<open>id\<close> is its primary key.\<close>

type_synonym store = "ExceptionLog list"

definition findUnsynced :: "store \<Rightarrow> ExceptionLog list" where
  "findUnsynced db = filter (\<lambda>doc. \<not> isSynced doc) db"

text \<open>\<open>insert\<close> rejects (\<open>None\<close>) a document whose primary key is taken.\<close>

definition insertLog :: "store \<Rightarrow> ExceptionLog \<Rightarrow> store option" where
  "insertLog db doc =
     (if list_ex (\<lambda>d. logId d = logId doc) db then None else Some (db @ [doc]))"

definition deleteLog :: "store \<Rightarrow> string \<Rightarrow> bool \<times> store" where
  "deleteLog db i =
     (if list_ex (\<lambda>d. logId d = i) db then (True, filter (\<lambda>d. logId d \<noteq> i) db)
      else (False, db))"

section \<open>The synchronization tick (AppComponent.checkSyncLog)\<close>

definition toISOString :: "int \<Rightarrow> int option \<Rightarrow> int" where
  "toISOString now ts = (case ts of None \<Rightarrow> now | Some t \<Rightarrow> t)"

definition logRequest :: "int \<Rightarrow> ExceptionLog \<Rightarrow> ExceptionLog" where
  "logRequest now log =
     \<lparr>logId = logId log,
      message = orElse (message log) ''Unknown error'',
      serviceName = orElse (serviceName log) ''UnknownService'',
      errorType = orElse (errorType log) ''Error'',
      code = orElse (code log) ''UNKNOWN'',
      timestamp = Some (toISOString now (timestamp log)),
      parkingDoorNumber = orElse (parkingDoorNumber log) ''N/A'',
      isSynced = False\<rparr>"

definition hasSimilarError :: "store \<Rightarrow> string \<Rightarrow> string \<Rightarrow> string \<Rightarrow> bool" where
  "hasSimilarError db et c sn =
     list_ex (\<lambda>log. errorType log = et \<and> code log = c \<and> serviceName log = sn)
       (findUnsynced db)"

text \<open>
  \<open>getErrorMessage\<close>. The fixed texts of the source are Thai; \<open>thai\<close> stands for
  them, giving the text written under each key of \<open>messages\<close> (for \<open>SyncError\<close>
  the words before the colon).
\<close>

definition getErrorMessage :: "(string \<Rightarrow> string) \<Rightarrow> string option \<Rightarrow> string \<Rightarrow> string" where
  "getErrorMessage thai err et =
     (let syncError = thai ''SyncError'' @ '': ''
            @ orElse (case err of None \<Rightarrow> [] | Some m \<Rightarrow> m) ''Unknown error'';
          messages =
            map (\<lambda>k. (k, thai k))
              [''NetworkOfflineError'', ''TimeoutError'', ''BadRequestError'',
               ''UnauthorizedError'', ''ForbiddenError'', ''NotFoundError'', ''ServerError'']
            @ [(''SyncError'', syncError)]
      in case map_of messages et of None \<Rightarrow> syncError | Some m \<Rightarrow> orElse m syncError)"

text \<open>
  One entry per record a tick has submitted: waiting for the gateway, or rejected with
  the duplicate check passed and the new log's type, code and message in hand
  (the handler stands between its two awaits), or finished.
\<close>

datatype handler = Sent | Checked string string string | Finished

text \<open>
  The store, the requests handed to \<open>apiFacade.createExceptionLog\<close> so far, and the
  handlers of the submitted records.
\<close>

record sync =
  exception_logs :: store
  gatewayCalls :: "ExceptionLog list"
  handlers :: "(ExceptionLog \<times> handler) list"

text \<open>
  \<open>checkSyncLog\<close> as far as it runs by itself: it reads the unsynced logs and submits
  each to the gateway. The outcomes arrive later, one event each.
\<close>

definition checkSyncLog :: "int \<Rightarrow> sync \<Rightarrow> sync" where
  "checkSyncLog now s =
     (let logUnSynced = findUnsynced (exception_logs s) in
      if length logUnSynced = 0 then s
      else s\<lparr>gatewayCalls := gatewayCalls s @ map (logRequest now) logUnSynced,
             handlers := handlers s @ map (\<lambda>log. (log, Sent)) logUnSynced\<rparr>)"

text \<open>
  The job registered in \<open>ngOnInit\<close> calls \<open>checkSyncLog\<close> without awaiting it and
  returns.
\<close>

definition syncJob :: "int \<Rightarrow> sync \<Rightarrow> outcome \<times> sync" where
  "syncJob now s = (Returns, checkSyncLog now s)"

definition setHandler :: "nat \<Rightarrow> handler \<Rightarrow> sync \<Rightarrow> sync" where
  "setHandler i h s = s\<lparr>handlers := (handlers s)[i := (fst (handlers s ! i), h)]\<rparr>"

definition waiting :: "nat \<Rightarrow> sync \<Rightarrow> bool" where
  "waiting i s = (i < length (handlers s) \<and> snd (handlers s ! i) = Sent)"

text \<open>The \<open>tap\<close> branch: the gateway accepted record \<open>i\<close>.\<close>

definition onAccepted :: "nat \<Rightarrow> sync \<Rightarrow> sync" where
  "onAccepted i s =
     (if waiting i s
      then setHandler i Finished
             (s\<lparr>exception_logs := snd (deleteLog (exception_logs s) (logId (fst (handlers s ! i))))\<rparr>)
      else s)"

text \<open>
  The \<open>catchError\<close> branch up to the end of \<open>await hasSimilarError(...)\<close>:
  the failure is classified (\<open>onLine\<close> is \<open>navigator.onLine\<close> then) and the store is
  read for a similar unsynced log.
\<close>

definition onRejected :: "(string \<Rightarrow> string) \<Rightarrow> nat \<Rightarrow> string option \<Rightarrow> bool \<Rightarrow> sync \<Rightarrow> sync" where
  "onRejected thai i err onLine s =
     (if waiting i s
      then (let et = getErrorType onLine err;
                ec = getErrorCode et;
                em = getErrorMessage thai err et
            in if hasSimilarError (exception_logs s) et ec ''AppComponent'' then setHandler i Finished s
               else setHandler i (Checked et ec em) s)
      else s)"

definition syncErrorId :: "string \<Rightarrow> nat \<Rightarrow> string" where
  "syncErrorId et now = ''sync-error-'' @ toLowerCase et @ ''-'' @ showNat now"

text \<open>
  The rest of the \<open>catchError\<close> branch: \<open>storageFacade.createExceptionLog\<close> with
  \<open>Date.now() = now\<close>. A rejected insert leaves the store as it is.
\<close>

definition onCreate :: "nat \<Rightarrow> nat \<Rightarrow> sync \<Rightarrow> sync" where
  "onCreate i now s =
     (if i < length (handlers s)
      then (case handlers s ! i of
              (log, Checked et ec em) \<Rightarrow>
                (let doc = \<lparr>logId = syncErrorId et now, message = em,
                            serviceName = ''AppComponent'', errorType = et, code = ec,
                            timestamp = Some (int now),
                            parkingDoorNumber = orElse (parkingDoorNumber log) ''N/A'',
                            isSynced = False\<rparr>
                 in case insertLog (exception_logs s) doc of
                      None \<Rightarrow> setHandler i Finished s
                    | Some db' \<Rightarrow> setHandler i Finished (s\<lparr>exception_logs := db'\<rparr>))
            | _ \<Rightarrow> s)
      else s)"

text \<open>
  What happens, in the order it happens: a tick starts, the gateway accepts or rejects a
  submitted record, a rejected record's handler reaches its insert.
\<close>

datatype event =
    Tick int
  | Accepted nat
  | Rejected nat "string option" bool
  | Create nat nat

fun step :: "(string \<Rightarrow> string) \<Rightarrow> event \<Rightarrow> sync \<Rightarrow> sync" where
  "step thai (Tick now) s = checkSyncLog now s"
| "step thai (Accepted i) s = onAccepted i s"
| "step thai (Rejected i err onLine) s = onRejected thai i err onLine s"
| "step thai (Create i now) s = onCreate i now s"

fun run :: "(string \<Rightarrow> string) \<Rightarrow> event list \<Rightarrow> sync \<Rightarrow> sync" where
  "run thai [] s = s"
| "run thai (e # es) s = run thai es (step thai e s)"

text \<open>The ids a run's inserts write, whatever the error type.\<close>

fun createsId :: "string \<Rightarrow> event \<Rightarrow> bool" where
  "createsId i (Create j now) = (\<exists>et. syncErrorId et now = i)"
| "createsId i _ = False"

text \<open>The unsynced logs that carry a given deduplication key.\<close>

definition withKey :: "string \<Rightarrow> string \<Rightarrow> string \<Rightarrow> store \<Rightarrow> ExceptionLog list" where
  "withKey et c sn st =
     filter (\<lambda>log. errorType log = et \<and> code log = c \<and> serviceName log = sn) (findUnsynced st)"

text \<open>
  Runs in which every rejected record's handler reaches its insert before anything else
  happens: each \<open>Rejected i\<close> is followed at once by \<open>Create i\<close>.
\<close>

fun serial :: "event list \<Rightarrow> bool" where
  "serial [] = True"
| "serial (Rejected i err onLine # Create j now # es) = (i = j \<and> serial es)"
| "serial (Rejected i err onLine # es) = False"
| "serial (Create j now # es) = False"
| "serial (e # es) = serial es"

text \<open>No handler stands between its duplicate check and its insert.\<close>

definition noneChecked :: "sync \<Rightarrow> bool" where
  "noneChecked s =
     list_all (\<lambda>lh. case snd lh of Checked et ec em \<Rightarrow> False | _ \<Rightarrow> True) (handlers s)"

section \<open>Example configurations\<close>

text \<open>A registration call that leaves the \<open>options\<close> argument out.\<close>

definition noOptions :: CronJobOptions where
  "noOptions = \<lparr>autoStart = None, runOnInit = None, maxRuns = None, onError = False\<rparr>"

text \<open>\<open>{ maxRuns: k }\<close>, \<open>{ maxRuns: k, runOnInit: true }\<close>, \<open>{ onError: f }\<close> and
  \<open>{ autoStart: false }\<close>.\<close>

definition maxRunsOnly :: "int \<Rightarrow> CronJobOptions" where
  "maxRunsOnly k = noOptions\<lparr>maxRuns := Some k\<rparr>"

definition maxRunsOnInit :: "int \<Rightarrow> CronJobOptions" where
  "maxRunsOnInit k = noOptions\<lparr>maxRuns := Some k, runOnInit := Some True\<rparr>"

definition withOnError :: CronJobOptions where
  "withOnError = noOptions\<lparr>onError := True\<rparr>"

definition noAutoStart :: CronJobOptions where
  "noAutoStart = noOptions\<lparr>autoStart := Some False\<rparr>"

text \<open>Two unsynced logs, a store with nothing submitted yet, and texts that read as their keys.\<close>

definition log1 :: ExceptionLog where
  "log1 = \<lparr>logId = ''log-1'', message = ''Failed to fetch'', serviceName = ''CheckInService'',
     errorType = [], code = ''ERR_001'', timestamp = Some 0, parkingDoorNumber = ''A1'',
     isSynced = False\<rparr>"

definition log2 :: ExceptionLog where
  "log2 = \<lparr>logId = ''log-2'', message = ''Camera failed'', serviceName = ''CameraService'',
     errorType = ''CameraError'', code = ''ERR_002'', timestamp = None, parkingDoorNumber = [],
     isSynced = False\<rparr>"

definition freshSync :: "store \<Rightarrow> sync" where
  "freshSync st = \<lparr>exception_logs = st, gatewayCalls = [], handlers = []\<rparr>"

definition keyAsText :: "string \<Rightarrow> string" where
  "keyAsText k = k"

section \<open>Scheduler: facts about single operations\<close>

lemma runCountVar_stopJob: "runCountVar (stopJob nm s) = runCountVar s"
  by (auto simp: stopJob_def clearTimer_def split: option.splits)


lemma runCount_stopJob:
  "jobs (stopJob nm s) n = Some w' \<Longrightarrow> \<exists>w. jobs s n = Some w \<and> runCount w' = runCount w"
  by (auto simp: stopJob_def clearTimer_def Let_def split: option.splits if_splits)

lemma runCountVar_startJob: "runCountVar (startJob nm now s) = runCountVar s"
  by (auto simp: startJob_def setTimer_def split: option.splits)



lemma closureOf_fields:
  "cname (closureOf nm iv opts s0) = nm" "copts (closureOf nm iv opts s0) = opts"
  "cinterval (closureOf nm iv opts s0) = iv"
  by (simp_all add: closureOf_def newClosure_def)

text \<open>A tick never raises the closure's counter above a positive \<open>maxRuns\<close>.\<close>

lemma tick_bound:
  assumes "maxRuns (copts c) = Some (int k)" "0 < k" "runCountVar s (cid c) \<le> k"
  shows "runCountVar (wrappedOnTick c out now s) (cid c) \<le> k"
  using assms
  by (auto simp: wrappedOnTick_def wrappedOnTick_call_def wrappedOnTick_resume_def
      maxRunsReached_def runCountVar_stopJob Let_def split: outcome.splits option.splits)

lemma runTicks_bound:
  assumes "maxRuns (copts c) = Some (int k)" "0 < k" "runCountVar s (cid c) \<le> k"
  shows "runCountVar (runTicks c ticks s) (cid c) \<le> k"
  using assms(3)
proof (induction ticks arbitrary: s)
  case Nil
  then show ?case by simp
next
  case (Cons a ticks)
  obtain out now where a: "a = (out, now)" by (cases a)
  show ?case
    unfolding a using Cons.IH[OF tick_bound[OF assms(1,2) Cons.prems]] by simp
qed

text \<open>The counter counts exactly the invocations that returned.\<close>

lemma succeeded_count:
  "succeeded c ticks s + runCountVar s (cid c) = runCountVar (runTicks c ticks s) (cid c)"
proof (induction ticks arbitrary: s)
  case Nil
  then show ?case by simp
next
  case (Cons a ticks)
  obtain out now where a: "a = (out, now)" by (cases a)
  have "runCountVar (wrappedOnTick c out now s) (cid c) =
        runCountVar s (cid c) + (if fst (wrappedOnTick_call c s) \<and> out = Returns then 1 else 0)"
    by (auto simp: wrappedOnTick_def wrappedOnTick_call_def wrappedOnTick_resume_def
        runCountVar_stopJob Let_def split: outcome.splits option.splits)
  then show ?case
    unfolding a using Cons.IH[of "wrappedOnTick c out now s"] by simp
qed

lemma wrapper_bound_tick:
  assumes "maxRuns (copts c) = Some (int k)" "0 < k" "runCountVar s (cid c) \<le> k"
    "\<forall>w. jobs s (cname c) = Some w \<longrightarrow> runCount w \<le> k"
  shows "\<forall>w. jobs (wrappedOnTick c out now s) (cname c) = Some w \<longrightarrow> runCount w \<le> k"
  using assms
  by (auto simp: wrappedOnTick_def wrappedOnTick_call_def wrappedOnTick_resume_def
      maxRunsReached_def Let_def dest!: runCount_stopJob
      split: outcome.splits option.splits if_splits)

lemma wrapper_bound_runTicks:
  assumes "maxRuns (copts c) = Some (int k)" "0 < k" "runCountVar s (cid c) \<le> k"
    "\<forall>w. jobs s (cname c) = Some w \<longrightarrow> runCount w \<le> k"
  shows "\<forall>w. jobs (runTicks c ticks s) (cname c) = Some w \<longrightarrow> runCount w \<le> k"
  using assms(3,4)
proof (induction ticks arbitrary: s)
  case Nil
  then show ?case by simp
next
  case (Cons a ticks)
  obtain out now where a: "a = (out, now)" by (cases a)
  show ?case
    unfolding a
    using Cons.IH[OF tick_bound[OF assms(1,2) Cons.prems(1)]
        wrapper_bound_tick[OF assms(1,2) Cons.prems]]
    by simp
qed

lemma jobs_tick_present:
  "jobs s n = Some w \<Longrightarrow> \<exists>w'. jobs (wrappedOnTick c out now s) n = Some w'"
  by (auto simp: wrappedOnTick_def wrappedOnTick_call_def wrappedOnTick_resume_def
      stopJob_def clearTimer_def Let_def split: outcome.splits option.splits if_splits)

lemma jobs_runTicks_present:
  "jobs s n = Some w \<Longrightarrow> \<exists>w'. jobs (runTicks c ticks s) n = Some w'"
proof (induction ticks arbitrary: s w)
  case Nil
  then show ?case by simp
next
  case (Cons a ticks)
  obtain out now where a: "a = (out, now)" by (cases a)
  from jobs_tick_present[OF Cons.prems]
  obtain w1 where "jobs (wrappedOnTick c out now s) n = Some w1" by blast
  from Cons.IH[OF this] show ?case unfolding a by simp
qed

lemma tick_at_ceiling:
  assumes "maxRuns (copts c) = Some (int k)" "0 < k" "k \<le> runCountVar s (cid c)"
  shows "wrappedOnTick c out now s = stopJob (cname c) s"
  using assms by (auto simp: wrappedOnTick_def wrappedOnTick_call_def maxRunsReached_def)

lemma tick_below_ceiling:
  assumes "maxRuns (copts c) = Some (int k)" "runCountVar s (cid c) < k"
  shows "fst (wrappedOnTick_call c s)"
  using assms by (auto simp: wrappedOnTick_call_def maxRunsReached_def)

lemma addIntervalJob_fresh:
  assumes "runOnInit opts \<noteq> Some True"
  shows "runCountVar (addIntervalJob nm iv opts now s0) (cid (closureOf nm iv opts s0)) = 0"
    and "\<exists>w. jobs (addIntervalJob nm iv opts now s0) nm = Some w \<and> runCount w = 0"
  using assms
  by (auto simp: addIntervalJob_def closureOf_def newClosure_def Let_def runCountVar_startJob
      startJob_def setTimer_def split: option.splits)


section \<open>Scheduler: the run-count ceiling\<close>

text \<open>
  C4, as stated: with \<open>maxRuns = k\<close> the action is invoked at most \<open>k\<close> times. It fails
  for \<open>k = 1\<close>: the first tick's action throws, which does not count as a run, so the
  second tick invokes the action again.
\<close>

theorem maxRuns_invocations_counterexample:
  "\<not> invoked
       (runTicks
          (closureOf ''heartbeat'' 1000
             \<lparr>autoStart = None, runOnInit = None, maxRuns = Some 1, onError = False\<rparr> emptyCron)
          [(Throws ''boom'', 1000), (Returns, 2000)]
          (addIntervalJob ''heartbeat'' 1000
             \<lparr>autoStart = None, runOnInit = None, maxRuns = Some 1, onError = False\<rparr> 0 emptyCron))
       0 \<le> 1"
  by (simp add: closureOf_def newClosure_def emptyCron_def addIntervalJob_def startJob_def
      setTimer_def wrappedOnTick_def wrappedOnTick_call_def wrappedOnTick_resume_def
      maxRunsReached_def Let_def)

text \<open>
  C4, amended. An interval job is registered with \<open>maxRuns = k\<close>, \<open>k \<ge> 1\<close>, and no
  \<open>runOnInit\<close>; its ticks run one after the other, each settling before the next.
  After any number of ticks the closure's \<open>runCount\<close> and the registered job's
  \<open>runCount\<close> are at most \<open>k\<close>, and at most \<open>k\<close> invocations have returned. The next
  tick either invokes the action (while \<open>runCount < k\<close>), or, once \<open>runCount = k\<close>, it
  stops the job (\<open>isRunning\<close> is false) without invoking the action.
\<close>

theorem maxRuns_ceiling:
  fixes k :: nat and nm :: string and iv :: int and opts :: CronJobOptions and s0 :: cron
    and ticks :: "(outcome \<times> int) list" and now :: int and out :: outcome and t :: int
  defines "c \<equiv> closureOf nm iv opts s0"
  defines "st \<equiv> runTicks (closureOf nm iv opts s0) ticks (addIntervalJob nm iv opts now s0)"
  assumes mr: "maxRuns opts = Some (int k)" and k: "0 < k" and ni: "runOnInit opts \<noteq> Some True"
  shows "runCountVar st (cid c) \<le> k
       \<and> succeeded c ticks (addIntervalJob nm iv opts now s0) \<le> k
       \<and> (\<exists>w. jobs st nm = Some w \<and> runCount w \<le> k)
       \<and> (runCountVar st (cid c) < k \<and> fst (wrappedOnTick_call c st)
          \<or> runCountVar st (cid c) = k
            \<and> (\<exists>w. jobs (wrappedOnTick c out t st) nm = Some w \<and> \<not> isRunning w)
            \<and> invoked (wrappedOnTick c out t st) (cid c) = invoked st (cid c))"
proof -
  define s where "s = addIntervalJob nm iv opts now s0"
  have st: "st = runTicks c ticks s"
    by (simp add: st_def c_def s_def)
  have cm: "maxRuns (copts c) = Some (int k)" and cn: "cname c = nm"
    by (simp_all add: c_def closureOf_fields mr)
  have rc0: "runCountVar s (cid c) = 0"
    unfolding s_def c_def by (rule addIntervalJob_fresh(1)[OF ni])
  obtain w0 where w0: "jobs s nm = Some w0" "runCount w0 = 0"
    using addIntervalJob_fresh(2)[OF ni] unfolding s_def by blast
  have b1: "runCountVar st (cid c) \<le> k"
    unfolding st by (rule runTicks_bound[OF cm k]) (simp add: rc0)
  have b2: "succeeded c ticks s \<le> k"
    using succeeded_count[of c ticks s] b1 unfolding st by simp
  have wb: "\<forall>w. jobs st (cname c) = Some w \<longrightarrow> runCount w \<le> k"
    unfolding st by (rule wrapper_bound_runTicks[OF cm k]) (simp_all add: rc0 cn w0)
  obtain w1 where w1: "jobs st nm = Some w1"
    using jobs_runTicks_present[OF w0(1)] unfolding st by blast
  have b3: "\<exists>w. jobs st nm = Some w \<and> runCount w \<le> k"
    using wb w1 cn by simp
  have b4: "(\<exists>w. jobs (wrappedOnTick c out t st) nm = Some w \<and> \<not> isRunning w)
          \<and> invoked (wrappedOnTick c out t st) (cid c) = invoked st (cid c)"
    if eq: "runCountVar st (cid c) = k"
  proof -
    have tk: "wrappedOnTick c out t st = stopJob nm st"
      using tick_at_ceiling[OF cm k, of st out t] eq cn by simp
    show ?thesis
      unfolding tk using w1
      by (auto simp: stopJob_def clearTimer_def Let_def split: option.splits)
  qed
  have b5: "fst (wrappedOnTick_call c st)" if "runCountVar st (cid c) < k"
    using tick_below_ceiling[OF cm that] .
  show ?thesis
    using b1 b2 b3 b4 b5 unfolding s_def by (cases "runCountVar st (cid c) = k") auto
qed

theorem maxRuns_ceiling_witness:
  "maxRuns \<lparr>autoStart = None, runOnInit = None, maxRuns = Some 3, onError = False\<rparr> = Some (int 3)
   \<and> (0::nat) < 3
   \<and> runOnInit \<lparr>autoStart = None, runOnInit = None, maxRuns = Some 3, onError = False\<rparr> \<noteq> Some True
   \<and> runCountVar
        (runTicks
           (closureOf ''heartbeat'' 1000
              \<lparr>autoStart = None, runOnInit = None, maxRuns = Some 3, onError = False\<rparr> emptyCron)
           [(Returns, 1000), (Returns, 2000), (Returns, 3000)]
           (addIntervalJob ''heartbeat'' 1000
              \<lparr>autoStart = None, runOnInit = None, maxRuns = Some 3, onError = False\<rparr> 0 emptyCron))
        (cid (closureOf ''heartbeat'' 1000
              \<lparr>autoStart = None, runOnInit = None, maxRuns = Some 3, onError = False\<rparr> emptyCron))
      \<le> 3
   \<and> succeeded
        (closureOf ''heartbeat'' 1000
           \<lparr>autoStart = None, runOnInit = None, maxRuns = Some 3, onError = False\<rparr> emptyCron)
        [(Returns, 1000), (Returns, 2000), (Returns, 3000)]
        (addIntervalJob ''heartbeat'' 1000
           \<lparr>autoStart = None, runOnInit = None, maxRuns = Some 3, onError = False\<rparr> 0 emptyCron)
      \<le> 3"
  using maxRuns_ceiling[where opts = "\<lparr>autoStart = None, runOnInit = None, maxRuns = Some 3, onError = False\<rparr>"
      and k = 3 and nm = "''heartbeat''" and iv = 1000 and ?s0.0 = emptyCron
      and ticks = "[(Returns, 1000), (Returns, 2000), (Returns, 3000)]" and now = 0
      and out = Returns and t = 4000]
  by simp

section \<open>Scheduler: a failing tick\<close>

text \<open>The definitions that evaluate the scheduler on a concrete state.\<close>

lemmas cron_defs = closureOf_def newClosure_def emptyCron_def addIntervalJob_def startJob_def
  setTimer_def wrappedOnTick_def wrappedOnTick_call_def wrappedOnTick_resume_def
  maxRunsReached_def Let_def noOptions_def maxRunsOnly_def maxRunsOnInit_def withOnError_def
  noAutoStart_def stopJob_def removeJob_def clearTimer_def timerFires_def addDailyJob_def
  scheduleNext_def

text \<open>
  C5. An interval job's timer fires and the action, once invoked, throws or rejects with
  \<open>e\<close>. Then no closure's \<open>runCount\<close> changes, the registered jobs are as before
  (same \<open>runCount\<close>, still running, same timer handle), the live timers are as before,
  so the next tick fires on schedule, and \<open>onError\<close> has received \<open>e\<close> exactly when
  one is registered.
\<close>

theorem failing_tick_keeps_job:
  assumes live: "timers s h = Some (Repeating, WrappedOnTick c)"
    and inv: "fst (wrappedOnTick_call c s)"
  shows "runCountVar (timerFires h (Throws e) now s) = runCountVar s
       \<and> jobs (timerFires h (Throws e) now s) = jobs s
       \<and> timers (timerFires h (Throws e) now s) = timers s
       \<and> invoked (timerFires h (Throws e) now s) (cid c) = invoked s (cid c) + 1
       \<and> reported (timerFires h (Throws e) now s)
           = (if onError (copts c) then reported s @ [e] else reported s)"
  using assms
  by (auto simp: timerFires_def wrappedOnTick_def wrappedOnTick_call_def wrappedOnTick_resume_def
      split: if_splits)

theorem failing_tick_keeps_job_witness:
  "timers (addIntervalJob ''checkSyncLog'' 30000 withOnError 0 emptyCron) 1
     = Some (Repeating, WrappedOnTick (closureOf ''checkSyncLog'' 30000 withOnError emptyCron))
   \<and> fst (wrappedOnTick_call (closureOf ''checkSyncLog'' 30000 withOnError emptyCron)
            (addIntervalJob ''checkSyncLog'' 30000 withOnError 0 emptyCron))
   \<and> jobs (timerFires 1 (Throws ''offline'') 30000
             (addIntervalJob ''checkSyncLog'' 30000 withOnError 0 emptyCron))
       = jobs (addIntervalJob ''checkSyncLog'' 30000 withOnError 0 emptyCron)
   \<and> timers (timerFires 1 (Throws ''offline'') 30000
             (addIntervalJob ''checkSyncLog'' 30000 withOnError 0 emptyCron))
       = timers (addIntervalJob ''checkSyncLog'' 30000 withOnError 0 emptyCron)
   \<and> reported (timerFires 1 (Throws ''offline'') 30000
             (addIntervalJob ''checkSyncLog'' 30000 withOnError 0 emptyCron)) = [''offline'']"
proof -
  have h1: "timers (addIntervalJob ''checkSyncLog'' 30000 withOnError 0 emptyCron) 1
     = Some (Repeating, WrappedOnTick (closureOf ''checkSyncLog'' 30000 withOnError emptyCron))"
    by (simp add: cron_defs)
  have h2: "fst (wrappedOnTick_call (closureOf ''checkSyncLog'' 30000 withOnError emptyCron)
            (addIntervalJob ''checkSyncLog'' 30000 withOnError 0 emptyCron))"
    by (simp add: cron_defs)
  have h3: "onError (copts (closureOf ''checkSyncLog'' 30000 withOnError emptyCron))"
    "reported (addIntervalJob ''checkSyncLog'' 30000 withOnError 0 emptyCron) = []"
    by (simp_all add: cron_defs)
  show ?thesis
    using h1 h2 h3 failing_tick_keeps_job[OF h1 h2, of "''offline''" 30000] by simp
qed

section \<open>Scheduler: the initial run counts\<close>



section \<open>Scheduler: registering under a name in use\<close>

text \<open>\<open>addIntervalJob\<close> stops and removes the job it replaces: its timer is cleared.\<close>

lemma addIntervalJob_clears_replaced_timer:
  assumes "jobs s nm = Some w" "isRunning w" "intervalId w = Some h" "0 < h" "h < nextHandle s"
  shows "timers (addIntervalJob nm iv opts now s) h = None"
  using assms
  by (auto simp: addIntervalJob_def removeJob_def stopJob_def clearTimer_def startJob_def
      setTimer_def wrappedOnTick_call_def Let_def split: option.splits if_splits)

text \<open>
  C8. \<open>addDailyJob\<close> has no such step. An interval job \<open>sync\<close> is registered and
  started (timer handle 1), then a daily job is registered under the same name. The
  interval timer of the replaced job is still live with the old closure; when it fires,
  the old action runs (closure 0 is invoked) and its \<open>runCount\<close> is written into the
  daily job's entry. Registering through \<open>addIntervalJob\<close> instead clears handle 1.
\<close>

theorem addDailyJob_keeps_replaced_timer:
  "timers (addDailyJob ''sync'' 9 0 noOptions 0 (addIntervalJob ''sync'' 1000 noOptions 0 emptyCron)) 1
     = Some (Repeating, WrappedOnTick (closureOf ''sync'' 1000 noOptions emptyCron))
   \<and> map_option onTick
        (jobs (addDailyJob ''sync'' 9 0 noOptions 0 (addIntervalJob ''sync'' 1000 noOptions 0 emptyCron))
           ''sync'')
     = Some (ScheduleNext \<lparr>dname = ''sync'', dhour = 9, dminute = 0\<rparr>)
   \<and> invoked
        (timerFires 1 Returns 1000
           (addDailyJob ''sync'' 9 0 noOptions 0 (addIntervalJob ''sync'' 1000 noOptions 0 emptyCron)))
        0 = 1
   \<and> map_option runCount
        (jobs (timerFires 1 Returns 1000
           (addDailyJob ''sync'' 9 0 noOptions 0 (addIntervalJob ''sync'' 1000 noOptions 0 emptyCron)))
           ''sync'') = Some 1
   \<and> timers (addIntervalJob ''sync'' 500 noOptions 0 (addIntervalJob ''sync'' 1000 noOptions 0 emptyCron)) 1
     = None"
  by (simp add: cron_defs)

section \<open>Scheduler: stopped jobs and nextRun\<close>










section \<open>Scheduler: the next run of a daily job\<close>





section \<open>Failure classification: order and codes\<close>

text \<open>
  C7. \<open>getErrorType\<close> answers with the first test that succeeds, in this order: offline
  or a network signature, timeout, 400, 401, 403, 404, 500, and \<open>SyncError\<close> when none
  does. \<open>getErrorCode\<close> follows the fixed table, and the code of a classified failure
  is never the unknown code.
\<close>

theorem classification_order:
  fixes onLine :: bool and err :: "string option"
  defines "ty \<equiv> getErrorType onLine err"
  defines "net \<equiv> \<not> onLine \<or> includesStr (errorMessageLower err) ''network''
                    \<or> includesStr (errorMessageLower err) ''failed to fetch''"
  defines "tmo \<equiv> includesStr (errorMessageLower err) ''timeout''"
  defines "e400 \<equiv> includesStr (errorMessageLower err) ''400''
                    \<or> includesStr (errorMessageLower err) ''bad request''"
  defines "e401 \<equiv> includesStr (errorMessageLower err) ''401''
                    \<or> includesStr (errorMessageLower err) ''unauthorized''"
  defines "e403 \<equiv> includesStr (errorMessageLower err) ''403''
                    \<or> includesStr (errorMessageLower err) ''forbidden''"
  defines "e404 \<equiv> includesStr (errorMessageLower err) ''404''
                    \<or> includesStr (errorMessageLower err) ''not found''"
  defines "e500 \<equiv> includesStr (errorMessageLower err) ''500''
                    \<or> includesStr (errorMessageLower err) ''internal server''"
  shows "(net \<longrightarrow> ty = ''NetworkOfflineError'')
       \<and> (\<not> net \<and> tmo \<longrightarrow> ty = ''TimeoutError'')
       \<and> (\<not> net \<and> \<not> tmo \<and> e400 \<longrightarrow> ty = ''BadRequestError'')
       \<and> (\<not> net \<and> \<not> tmo \<and> \<not> e400 \<and> e401 \<longrightarrow> ty = ''UnauthorizedError'')
       \<and> (\<not> net \<and> \<not> tmo \<and> \<not> e400 \<and> \<not> e401 \<and> e403 \<longrightarrow> ty = ''ForbiddenError'')
       \<and> (\<not> net \<and> \<not> tmo \<and> \<not> e400 \<and> \<not> e401 \<and> \<not> e403 \<and> e404 \<longrightarrow> ty = ''NotFoundError'')
       \<and> (\<not> net \<and> \<not> tmo \<and> \<not> e400 \<and> \<not> e401 \<and> \<not> e403 \<and> \<not> e404 \<and> e500
            \<longrightarrow> ty = ''ServerError'')
       \<and> (\<not> net \<and> \<not> tmo \<and> \<not> e400 \<and> \<not> e401 \<and> \<not> e403 \<and> \<not> e404 \<and> \<not> e500
            \<longrightarrow> ty = ''SyncError'')
       \<and> getErrorCode ''NetworkOfflineError'' = ''SYNC_NET_001''
       \<and> getErrorCode ''TimeoutError'' = ''SYNC_TMO_001''
       \<and> getErrorCode ''BadRequestError'' = ''SYNC_REQ_400''
       \<and> getErrorCode ''UnauthorizedError'' = ''SYNC_AUT_401''
       \<and> getErrorCode ''ForbiddenError'' = ''SYNC_FOR_403''
       \<and> getErrorCode ''NotFoundError'' = ''SYNC_NTF_404''
       \<and> getErrorCode ''ServerError'' = ''SYNC_SRV_500''
       \<and> getErrorCode ''SyncError'' = ''SYNC_ERR_001''
       \<and> getErrorCode ty \<noteq> ''SYNC_UNK_999''"
proof -
  have codes: "getErrorCode ''NetworkOfflineError'' = ''SYNC_NET_001''"
    "getErrorCode ''TimeoutError'' = ''SYNC_TMO_001''"
    "getErrorCode ''BadRequestError'' = ''SYNC_REQ_400''"
    "getErrorCode ''UnauthorizedError'' = ''SYNC_AUT_401''"
    "getErrorCode ''ForbiddenError'' = ''SYNC_FOR_403''"
    "getErrorCode ''NotFoundError'' = ''SYNC_NTF_404''"
    "getErrorCode ''ServerError'' = ''SYNC_SRV_500''"
    "getErrorCode ''SyncError'' = ''SYNC_ERR_001''"
    by (simp_all add: getErrorCode_def errorCodes_def orElse_def)
  have ty: "ty = (if net then ''NetworkOfflineError'' else if tmo then ''TimeoutError''
      else if e400 then ''BadRequestError'' else if e401 then ''UnauthorizedError''
      else if e403 then ''ForbiddenError'' else if e404 then ''NotFoundError''
      else if e500 then ''ServerError'' else ''SyncError'')"
    unfolding ty_def net_def tmo_def e400_def e401_def e403_def e404_def e500_def
    by (simp add: getErrorType_def Let_def)
  have known: "getErrorCode ty \<noteq> ''SYNC_UNK_999''"
    unfolding ty using codes by simp
  show ?thesis
    using codes known unfolding ty by simp
qed

theorem classification_order_witness:
  "getErrorType False (Some ''HTTP 500: Internal Server Error'') = ''NetworkOfflineError''
   \<and> getErrorCode (getErrorType False (Some ''HTTP 500: Internal Server Error'')) = ''SYNC_NET_001''
   \<and> getErrorType True (Some ''Request timeout'') = ''TimeoutError''
   \<and> getErrorCode (getErrorType True (Some ''Request timeout'')) = ''SYNC_TMO_001''
   \<and> getErrorType True (Some ''HTTP 400: Bad Request'') = ''BadRequestError''
   \<and> getErrorCode (getErrorType True (Some ''HTTP 400: Bad Request'')) = ''SYNC_REQ_400''
   \<and> getErrorType True (Some ''HTTP 401: Unauthorized'') = ''UnauthorizedError''
   \<and> getErrorCode (getErrorType True (Some ''HTTP 401: Unauthorized'')) = ''SYNC_AUT_401''
   \<and> getErrorType True (Some ''HTTP 403: Forbidden'') = ''ForbiddenError''
   \<and> getErrorCode (getErrorType True (Some ''HTTP 403: Forbidden'')) = ''SYNC_FOR_403''
   \<and> getErrorType True (Some ''HTTP 404: Not Found'') = ''NotFoundError''
   \<and> getErrorCode (getErrorType True (Some ''HTTP 404: Not Found'')) = ''SYNC_NTF_404''
   \<and> getErrorType True (Some ''HTTP 500: Internal Server Error'') = ''ServerError''
   \<and> getErrorCode (getErrorType True (Some ''HTTP 500: Internal Server Error'')) = ''SYNC_SRV_500''
   \<and> getErrorType True (Some ''Unexpected end of JSON input'') = ''SyncError''
   \<and> getErrorCode (getErrorType True (Some ''Unexpected end of JSON input'')) = ''SYNC_ERR_001''"
proof -
  have t0: "getErrorType False (Some ''HTTP 500: Internal Server Error'') = ''NetworkOfflineError''"
    using classification_order[of False "Some ''HTTP 500: Internal Server Error''"]
    by (simp only: simp_thms)
  have l1: "errorMessageLower (Some ''Request timeout'') = ''request timeout''"
    by code_simp
  have h1: "\<not> includesStr (errorMessageLower (Some ''Request timeout'')) ''network''
      \<and> \<not> includesStr (errorMessageLower (Some ''Request timeout'')) ''failed to fetch''
      \<and> includesStr (errorMessageLower (Some ''Request timeout'')) ''timeout''"
    unfolding l1 by simp
  have t1: "getErrorType True (Some ''Request timeout'') = ''TimeoutError''"
    using h1 classification_order[of True "Some ''Request timeout''"]
    by (simp only: simp_thms)
  have l2: "errorMessageLower (Some ''HTTP 400: Bad Request'') = ''http 400: bad request''"
    by code_simp
  have h2: "\<not> includesStr (errorMessageLower (Some ''HTTP 400: Bad Request'')) ''network''
      \<and> \<not> includesStr (errorMessageLower (Some ''HTTP 400: Bad Request'')) ''failed to fetch''
      \<and> \<not> includesStr (errorMessageLower (Some ''HTTP 400: Bad Request'')) ''timeout''
      \<and> includesStr (errorMessageLower (Some ''HTTP 400: Bad Request'')) ''400''"
    unfolding l2 by simp
  have t2: "getErrorType True (Some ''HTTP 400: Bad Request'') = ''BadRequestError''"
    using h2 classification_order[of True "Some ''HTTP 400: Bad Request''"]
    by (simp only: simp_thms)
  have l3: "errorMessageLower (Some ''HTTP 401: Unauthorized'') = ''http 401: unauthorized''"
    by code_simp
  have h3: "\<not> includesStr (errorMessageLower (Some ''HTTP 401: Unauthorized'')) ''network''
      \<and> \<not> includesStr (errorMessageLower (Some ''HTTP 401: Unauthorized'')) ''failed to fetch''
      \<and> \<not> includesStr (errorMessageLower (Some ''HTTP 401: Unauthorized'')) ''timeout''
      \<and> \<not> includesStr (errorMessageLower (Some ''HTTP 401: Unauthorized'')) ''400''
      \<and> \<not> includesStr (errorMessageLower (Some ''HTTP 401: Unauthorized'')) ''bad request''
      \<and> includesStr (errorMessageLower (Some ''HTTP 401: Unauthorized'')) ''401''"
    unfolding l3 by simp
  have t3: "getErrorType True (Some ''HTTP 401: Unauthorized'') = ''UnauthorizedError''"
    using h3 classification_order[of True "Some ''HTTP 401: Unauthorized''"]
    by (simp only: simp_thms)
  have l4: "errorMessageLower (Some ''HTTP 403: Forbidden'') = ''http 403: forbidden''"
    by code_simp
  have h4: "\<not> includesStr (errorMessageLower (Some ''HTTP 403: Forbidden'')) ''network''
      \<and> \<not> includesStr (errorMessageLower (Some ''HTTP 403: Forbidden'')) ''failed to fetch''
      \<and> \<not> includesStr (errorMessageLower (Some ''HTTP 403: Forbidden'')) ''timeout''
      \<and> \<not> includesStr (errorMessageLower (Some ''HTTP 403: Forbidden'')) ''400''
      \<and> \<not> includesStr (errorMessageLower (Some ''HTTP 403: Forbidden'')) ''bad request''
      \<and> \<not> includesStr (errorMessageLower (Some ''HTTP 403: Forbidden'')) ''401''
      \<and> \<not> includesStr (errorMessageLower (Some ''HTTP 403: Forbidden'')) ''unauthorized''
      \<and> includesStr (errorMessageLower (Some ''HTTP 403: Forbidden'')) ''403''"
    unfolding l4 by simp
  have t4: "getErrorType True (Some ''HTTP 403: Forbidden'') = ''ForbiddenError''"
    using h4 classification_order[of True "Some ''HTTP 403: Forbidden''"]
    by (simp only: simp_thms)
  have l5: "errorMessageLower (Some ''HTTP 404: Not Found'') = ''http 404: not found''"
    by code_simp
  have h5: "\<not> includesStr (errorMessageLower (Some ''HTTP 404: Not Found'')) ''network''
      \<and> \<not> includesStr (errorMessageLower (Some ''HTTP 404: Not Found'')) ''failed to fetch''
      \<and> \<not> includesStr (errorMessageLower (Some ''HTTP 404: Not Found'')) ''timeout''
      \<and> \<not> includesStr (errorMessageLower (Some ''HTTP 404: Not Found'')) ''400''
      \<and> \<not> includesStr (errorMessageLower (Some ''HTTP 404: Not Found'')) ''bad request''
      \<and> \<not> includesStr (errorMessageLower (Some ''HTTP 404: Not Found'')) ''401''
      \<and> \<not> includesStr (errorMessageLower (Some ''HTTP 404: Not Found'')) ''unauthorized''
      \<and> \<not> includesStr (errorMessageLower (Some ''HTTP 404: Not Found'')) ''403''
      \<and> \<not> includesStr (errorMessageLower (Some ''HTTP 404: Not Found'')) ''forbidden''
      \<and> includesStr (errorMessageLower (Some ''HTTP 404: Not Found'')) ''404''"
    unfolding l5 by simp
  have t5: "getErrorType True (Some ''HTTP 404: Not Found'') = ''NotFoundError''"
    using h5 classification_order[of True "Some ''HTTP 404: Not Found''"]
    by (simp only: simp_thms)
  have l6: "errorMessageLower (Some ''HTTP 500: Internal Server Error'') = ''http 500: internal server error''"
    by code_simp
  have h6: "\<not> includesStr (errorMessageLower (Some ''HTTP 500: Internal Server Error'')) ''network''
      \<and> \<not> includesStr (errorMessageLower (Some ''HTTP 500: Internal Server Error'')) ''failed to fetch''
      \<and> \<not> includesStr (errorMessageLower (Some ''HTTP 500: Internal Server Error'')) ''timeout''
      \<and> \<not> includesStr (errorMessageLower (Some ''HTTP 500: Internal Server Error'')) ''400''
      \<and> \<not> includesStr (errorMessageLower (Some ''HTTP 500: Internal Server Error'')) ''bad request''
      \<and> \<not> includesStr (errorMessageLower (Some ''HTTP 500: Internal Server Error'')) ''401''
      \<and> \<not> includesStr (errorMessageLower (Some ''HTTP 500: Internal Server Error'')) ''unauthorized''
      \<and> \<not> includesStr (errorMessageLower (Some ''HTTP 500: Internal Server Error'')) ''403''
      \<and> \<not> includesStr (errorMessageLower (Some ''HTTP 500: Internal Server Error'')) ''forbidden''
      \<and> \<not> includesStr (errorMessageLower (Some ''HTTP 500: Internal Server Error'')) ''404''
      \<and> \<not> includesStr (errorMessageLower (Some ''HTTP 500: Internal Server Error'')) ''not found''
      \<and> includesStr (errorMessageLower (Some ''HTTP 500: Internal Server Error'')) ''500''"
    unfolding l6 by simp
  have t6: "getErrorType True (Some ''HTTP 500: Internal Server Error'') = ''ServerError''"
    using h6 classification_order[of True "Some ''HTTP 500: Internal Server Error''"]
    by (simp only: simp_thms)
  have l7: "errorMessageLower (Some ''Unexpected end of JSON input'') = ''unexpected end of json input''"
    by code_simp
  have h7: "\<not> includesStr (errorMessageLower (Some ''Unexpected end of JSON input'')) ''network''
      \<and> \<not> includesStr (errorMessageLower (Some ''Unexpected end of JSON input'')) ''failed to fetch''
      \<and> \<not> includesStr (errorMessageLower (Some ''Unexpected end of JSON input'')) ''timeout''
      \<and> \<not> includesStr (errorMessageLower (Some ''Unexpected end of JSON input'')) ''400''
      \<and> \<not> includesStr (errorMessageLower (Some ''Unexpected end of JSON input'')) ''bad request''
      \<and> \<not> includesStr (errorMessageLower (Some ''Unexpected end of JSON input'')) ''401''
      \<and> \<not> includesStr (errorMessageLower (Some ''Unexpected end of JSON input'')) ''unauthorized''
      \<and> \<not> includesStr (errorMessageLower (Some ''Unexpected end of JSON input'')) ''403''
      \<and> \<not> includesStr (errorMessageLower (Some ''Unexpected end of JSON input'')) ''forbidden''
      \<and> \<not> includesStr (errorMessageLower (Some ''Unexpected end of JSON input'')) ''404''
      \<and> \<not> includesStr (errorMessageLower (Some ''Unexpected end of JSON input'')) ''not found''
      \<and> \<not> includesStr (errorMessageLower (Some ''Unexpected end of JSON input'')) ''500''
      \<and> \<not> includesStr (errorMessageLower (Some ''Unexpected end of JSON input'')) ''internal server''"
    unfolding l7 by simp
  have t7: "getErrorType True (Some ''Unexpected end of JSON input'') = ''SyncError''"
    using h7 classification_order[of True "Some ''Unexpected end of JSON input''"]
    by (simp only: simp_thms)
  show ?thesis
    unfolding t0 t1 t2 t3 t4 t5 t6 t7
    using classification_order[of True None] by (simp only: simp_thms)
qed

section \<open>The tick and connectivity\<close>

lemmas sync_defs = checkSyncLog_def findUnsynced_def onAccepted_def onRejected_def onCreate_def
  setHandler_def waiting_def deleteLog_def insertLog_def hasSimilarError_def withKey_def
  freshSync_def log1_def log2_def Let_def logRequest_def toISOString_def orElse_def

text \<open>
  C1, as stated: a tick that starts offline makes no gateway call and changes nothing in
  the store. \<open>checkSyncLog\<close> never asks whether the device is online: with one unsynced
  log it submits that log, and when the call is rejected with \<open>navigator.onLine\<close> false
  its handler inserts a \<open>NetworkOfflineError\<close> log.
\<close>

theorem offline_tick_counterexample:
  "length (gatewayCalls (run keyAsText [Tick 0] (freshSync [log1]))) = 1
   \<and> map logId
        (exception_logs
           (run keyAsText [Tick 0, Rejected 0 (Some ''Failed to fetch'') False, Create 0 1000]
              (freshSync [log1])))
       = [''log-1'', ''sync-error-networkofflineerror-1000'']"
  by code_simp

lemma offline_is_network: "getErrorType False err = ''NetworkOfflineError''"
  by (simp add: getErrorType_def Let_def)

text \<open>
  C1, amended. A tick with no unsynced log is a no-op, online or offline. Otherwise the
  tick submits one request per unsynced log and does not itself change the store; that is
  left to the outcomes. The scheduled action returns normally, so the tick counts as a
  successful invocation. A failure classified while offline is a
  \<open>NetworkOfflineError\<close> with code \<open>SYNC_NET_001\<close>, whatever its message.
\<close>

theorem tick_without_connectivity_check:
  "(findUnsynced (exception_logs s) = [] \<longrightarrow> checkSyncLog now s = s)
   \<and> gatewayCalls (checkSyncLog now s)
       = gatewayCalls s @ map (logRequest now) (findUnsynced (exception_logs s))
   \<and> exception_logs (checkSyncLog now s) = exception_logs s
   \<and> fst (syncJob now s) = Returns
   \<and> getErrorType False err = ''NetworkOfflineError''
   \<and> getErrorCode (getErrorType False err) = ''SYNC_NET_001''"
  by (simp add: checkSyncLog_def syncJob_def Let_def offline_is_network getErrorCode_def
      errorCodes_def orElse_def)

theorem tick_without_connectivity_check_witness:
  "findUnsynced (exception_logs (freshSync [log1\<lparr>isSynced := True\<rparr>])) = []
   \<and> checkSyncLog 0 (freshSync [log1\<lparr>isSynced := True\<rparr>]) = freshSync [log1\<lparr>isSynced := True\<rparr>]
   \<and> gatewayCalls (checkSyncLog 0 (freshSync [log1\<lparr>isSynced := True\<rparr>])) = []"
proof -
  have h: "findUnsynced (exception_logs (freshSync [log1\<lparr>isSynced := True\<rparr>])) = []"
    by (simp add: findUnsynced_def freshSync_def)
  have g: "gatewayCalls (freshSync [log1\<lparr>isSynced := True\<rparr>]) = []"
    by (simp add: freshSync_def)
  show ?thesis
    using h g tick_without_connectivity_check[where s = "freshSync [log1\<lparr>isSynced := True\<rparr>]"
        and now = 0 and err = None]
    by simp
qed

section \<open>Deleting what the gateway accepted\<close>

lemma exception_logs_setHandler [simp]: "exception_logs (setHandler i h s) = exception_logs s"
  by (simp add: setHandler_def)

lemma ids_deleteLog: "logId ` set (snd (deleteLog db i)) = logId ` set db - {i}"
  by (auto simp: deleteLog_def list_ex_iff)

lemma ids_insertLog: "insertLog db doc = Some db' \<Longrightarrow> logId ` set db' = insert (logId doc) (logId ` set db)"
  by (auto simp: insertLog_def split: if_splits)

lemma ids_onCreate:
  assumes "x \<in> logId ` set (exception_logs (onCreate j now s))"
  shows "x \<in> logId ` set (exception_logs s) \<or> (\<exists>et. x = syncErrorId et now)"
proof (cases "j < length (handlers s)")
  case False
  then show ?thesis using assms by (simp add: onCreate_def)
next
  case True
  obtain log h where lh: "handlers s ! j = (log, h)" by (cases "handlers s ! j")
  show ?thesis
  proof (cases h)
    case (Checked et ec em)
    define doc where "doc = \<lparr>logId = syncErrorId et now, message = em,
                            serviceName = ''AppComponent'', errorType = et, code = ec,
                            timestamp = Some (int now),
                            parkingDoorNumber = orElse (parkingDoorNumber log) ''N/A'',
                            isSynced = False\<rparr>"
    have oc: "exception_logs (onCreate j now s)
        = (case insertLog (exception_logs s) doc of None \<Rightarrow> exception_logs s | Some db' \<Rightarrow> db')"
      using True lh Checked by (simp add: onCreate_def Let_def doc_def split: option.splits)
    show ?thesis
    proof (cases "insertLog (exception_logs s) doc")
      case None
      then show ?thesis using assms oc by simp
    next
      case (Some db')
      from ids_insertLog[OF Some] have "logId ` set db' = insert (syncErrorId et now) (logId ` set (exception_logs s))"
        by (simp add: doc_def)
      then show ?thesis using assms oc Some by auto
    qed
  qed (use assms True lh in \<open>simp_all add: onCreate_def\<close>)
qed

lemma step_keeps_absent:
  assumes "i \<notin> logId ` set (exception_logs s)" "\<not> createsId i e"
  shows "i \<notin> logId ` set (exception_logs (step thai e s))"
proof (cases e)
  case (Tick now)
  then show ?thesis using assms by (simp add: checkSyncLog_def Let_def)
next
  case (Accepted j)
  then show ?thesis using assms by (simp add: onAccepted_def ids_deleteLog)
next
  case (Rejected j err onLine)
  then show ?thesis using assms by (simp add: onRejected_def Let_def)
next
  case (Create j now)
  with assms(2) have fresh: "\<And>et. syncErrorId et now \<noteq> i" by auto
  show ?thesis
  proof
    assume "i \<in> logId ` set (exception_logs (step thai e s))"
    then have "i \<in> logId ` set (exception_logs (onCreate j now s))"
      by (simp add: Create)
    from ids_onCreate[OF this] show False
      using assms(1) fresh by blast
  qed
qed

lemma run_keeps_absent:
  assumes "i \<notin> logId ` set (exception_logs s)" "\<forall>e\<in>set es. \<not> createsId i e"
  shows "i \<notin> logId ` set (exception_logs (run thai es s))"
  using assms
proof (induction es arbitrary: s)
  case Nil
  then show ?case by simp
next
  case (Cons e es)
  then show ?case using step_keeps_absent[of i s e thai] by simp
qed

text \<open>
  C3. The gateway accepts the record a waiting handler submitted. Its log is deleted, and
  its id is in the store neither then nor after any further events (outcomes of this tick,
  later ticks and their outcomes), provided no later insert is given that very id: the
  only ids a tick writes are \<open>sync-error-<type>-<Date.now()>\<close>.
\<close>

theorem accepted_log_stays_deleted:
  assumes "waiting i s"
    and "\<forall>e\<in>set es. \<not> createsId (logId (fst (handlers s ! i))) e"
  shows "logId (fst (handlers s ! i)) \<notin> logId ` set (exception_logs (run thai es (onAccepted i s)))"
proof -
  have "logId (fst (handlers s ! i)) \<notin> logId ` set (exception_logs (onAccepted i s))"
    using assms(1) by (simp add: onAccepted_def ids_deleteLog)
  then show ?thesis
    using assms(2) by (rule run_keeps_absent)
qed

theorem accepted_log_stays_deleted_witness:
  "waiting 0 (checkSyncLog 0 (freshSync [log1, log2]))
   \<and> logId (fst (handlers (checkSyncLog 0 (freshSync [log1, log2])) ! 0)) = ''log-1''
   \<and> ''log-1'' \<notin> logId ` set (exception_logs
         (run keyAsText
            [Rejected 1 (Some ''HTTP 500: Internal Server Error'') True, Create 1 1000,
             Tick 30000, Accepted 2]
            (onAccepted 0 (checkSyncLog 0 (freshSync [log1, log2])))))"
proof -
  define s where "s = checkSyncLog 0 (freshSync [log1, log2])"
  have h1: "waiting 0 s"
    by (simp add: s_def sync_defs)
  have h0: "logId (fst (handlers s ! 0)) = ''log-1''"
    by (simp add: s_def sync_defs)
  have h2: "\<forall>e\<in>set [Rejected 1 (Some ''HTTP 500: Internal Server Error'') True, Create 1 1000,
             Tick 30000, Accepted 2]. \<not> createsId (logId (fst (handlers s ! 0))) e"
    by (simp add: h0 syncErrorId_def)
  show ?thesis
    using h1 h0 accepted_log_stays_deleted[OF h1 h2, of keyAsText]
    unfolding s_def by simp
qed

section \<open>Deduplication of failure logs\<close>

text \<open>
  C2. Two unsynced logs are submitted in one tick and both calls are rejected with
  \<open>Failed to fetch\<close>. Both handlers finish \<open>await hasSimilarError(...)\<close> before
  either inserts: each finds no similar log, and each inserts one (at clock 1000 and
  1001). The store then holds two unsynced logs with the key
  (\<open>NetworkOfflineError\<close>, \<open>SYNC_NET_001\<close>, \<open>AppComponent\<close>). When the first
  handler inserts before the second one checks, there is one.
\<close>

theorem interleaved_failures_duplicate:
  "length
     (withKey ''NetworkOfflineError'' ''SYNC_NET_001'' ''AppComponent''
        (exception_logs
           (run keyAsText
              [Tick 0, Rejected 0 (Some ''Failed to fetch'') True,
               Rejected 1 (Some ''Failed to fetch'') True, Create 0 1000, Create 1 1001]
              (freshSync [log1, log2])))) = 2
   \<and> length
     (withKey ''NetworkOfflineError'' ''SYNC_NET_001'' ''AppComponent''
        (exception_logs
           (run keyAsText
              [Tick 0, Rejected 0 (Some ''Failed to fetch'') True, Create 0 1000,
               Rejected 1 (Some ''Failed to fetch'') True, Create 1 1001]
              (freshSync [log1, log2])))) = 1"
  by code_simp

text \<open>What holds when handlers do not interleave.\<close>

lemma withKey_delete:
  "length (withKey et c sn (snd (deleteLog db i))) \<le> length (withKey et c sn db)"
proof -
  have "withKey et c sn (filter (\<lambda>d. logId d \<noteq> i) db) = filter (\<lambda>d. logId d \<noteq> i) (withKey et c sn db)"
    by (auto simp: withKey_def findUnsynced_def intro: filter_cong)
  then show ?thesis
    by (simp add: deleteLog_def)
qed

lemma withKey_empty_iff: "withKey et c sn db = [] \<longleftrightarrow> \<not> hasSimilarError db et c sn"
  by (auto simp: withKey_def hasSimilarError_def list_ex_iff filter_empty_conv)

lemma noneChecked_setHandler:
  "noneChecked s \<Longrightarrow> (\<And>et ec em. h \<noteq> Checked et ec em) \<Longrightarrow> noneChecked (setHandler i h s)"
  by (cases h) (auto simp: noneChecked_def setHandler_def list_all_iff dest!: set_update_subset_insert[THEN subsetD])

lemma noneChecked_onCreate: "noneChecked s \<Longrightarrow> onCreate i now s = s"
proof -
  assume n: "noneChecked s"
  show ?thesis
  proof (cases "i < length (handlers s)")
    case True
    then have "handlers s ! i \<in> set (handlers s)" by simp
    with n have "case snd (handlers s ! i) of Checked et ec em \<Rightarrow> False | _ \<Rightarrow> True"
      by (auto simp: noneChecked_def list_all_iff)
    then show ?thesis
      using True by (auto simp: onCreate_def split: prod.splits handler.splits)
  qed (simp add: onCreate_def)
qed

lemma handler_dedup:
  assumes "noneChecked s"
  shows "noneChecked (onCreate i now (onRejected thai i err onLine s))
       \<and> length (withKey et c sn (exception_logs (onCreate i now (onRejected thai i err onLine s))))
           \<le> max 1 (length (withKey et c sn (exception_logs s)))"
proof (cases "waiting i s")
  case False
  then show ?thesis using assms by (simp add: onRejected_def noneChecked_onCreate)
next
  case True
  define et' where "et' = getErrorType onLine err"
  define ec' where "ec' = getErrorCode et'"
  define em' where "em' = getErrorMessage thai err et'"
  show ?thesis
  proof (cases "hasSimilarError (exception_logs s) et' ec' ''AppComponent''")
    case sim: True
    have r: "onRejected thai i err onLine s = setHandler i Finished s"
      using True sim by (simp add: onRejected_def Let_def et'_def ec'_def)
    have n1: "noneChecked (setHandler i Finished s)"
      using assms by (rule noneChecked_setHandler) simp
    show ?thesis
      unfolding r using n1 by (simp add: noneChecked_onCreate)
  next
    case nosim: False
    have r: "onRejected thai i err onLine s = setHandler i (Checked et' ec' em') s"
      using True nosim by (simp add: onRejected_def Let_def et'_def ec'_def em'_def)
    define log where "log = fst (handlers s ! i)"
    define doc where "doc = \<lparr>logId = syncErrorId et' now, message = em',
                            serviceName = ''AppComponent'', errorType = et', code = ec',
                            timestamp = Some (int now),
                            parkingDoorNumber = orElse (parkingDoorNumber log) ''N/A'',
                            isSynced = False\<rparr>"
    have il: "i < length (handlers s)" using True by (simp add: waiting_def)
    have oc: "onCreate i now (setHandler i (Checked et' ec' em') s)
        = (case insertLog (exception_logs s) doc of
             None \<Rightarrow> setHandler i Finished s
           | Some db' \<Rightarrow> setHandler i Finished (s\<lparr>exception_logs := db'\<rparr>))"
      using il by (simp add: onCreate_def setHandler_def Let_def doc_def log_def split: option.splits)
    have n0: "noneChecked (s\<lparr>exception_logs := db'\<rparr>)" for db'
      using assms by (simp add: noneChecked_def)
    show ?thesis
    proof (cases "insertLog (exception_logs s) doc")
      case None
      then show ?thesis
        unfolding r oc using noneChecked_setHandler[OF assms, where h = Finished and i = i] by simp
    next
      case (Some db')
      then have db': "db' = exception_logs s @ [doc]"
        by (simp add: insertLog_def split: if_splits)
      have cnt: "length (withKey et c sn db') \<le> max 1 (length (withKey et c sn (exception_logs s)))"
      proof (cases "et = et' \<and> c = ec' \<and> sn = ''AppComponent''")
        case True
        then have "withKey et c sn (exception_logs s) = []"
          using nosim by (simp add: withKey_empty_iff)
        then show ?thesis
          using True by (simp add: db' withKey_def findUnsynced_def doc_def)
      next
        case False
        then have "withKey et c sn db' = withKey et c sn (exception_logs s)"
          by (auto simp: db' withKey_def findUnsynced_def doc_def)
        then show ?thesis by simp
      qed
      show ?thesis
        unfolding r oc using Some cnt noneChecked_setHandler[OF n0[of db'], where h = Finished and i = i] by simp
    qed
  qed
qed

lemma tick_dedup:
  assumes "noneChecked s"
  shows "noneChecked (checkSyncLog now s)"
    and "exception_logs (checkSyncLog now s) = exception_logs s"
  using assms by (auto simp: checkSyncLog_def noneChecked_def Let_def list_all_iff)

lemma accepted_dedup:
  assumes "noneChecked s"
  shows "noneChecked (onAccepted i s)"
    and "length (withKey et c sn (exception_logs (onAccepted i s)))
           \<le> length (withKey et c sn (exception_logs s))"
proof -
  have n0: "noneChecked (s\<lparr>exception_logs := db'\<rparr>)" for db'
    using assms by (simp add: noneChecked_def)
  show "noneChecked (onAccepted i s)"
    using assms noneChecked_setHandler[OF n0, where h = Finished and i = i]
    by (simp add: onAccepted_def)
  show "length (withKey et c sn (exception_logs (onAccepted i s)))
           \<le> length (withKey et c sn (exception_logs s))"
    by (simp add: onAccepted_def withKey_delete)
qed

lemma serial_Rejected:
  assumes "serial (Rejected i err onLine # es)"
  obtains now es' where "es = Create i now # es'" "serial es'"
proof (cases es)
  case Nil
  then show ?thesis using assms by simp
next
  case (Cons e es')
  then show ?thesis using assms that by (cases e) auto
qed

text \<open>
  In a run where every rejected record's handler inserts right after its check, and which
  starts with no handler between check and insert, no deduplication key ever has more
  unsynced logs than it had at the start, or one if it had none.
\<close>

theorem serial_dedup:
  assumes "serial es" "noneChecked s"
  shows "length (withKey et c sn (exception_logs (run thai es s)))
           \<le> max 1 (length (withKey et c sn (exception_logs s)))"
  using assms
proof (induction "length es" arbitrary: es s rule: less_induct)
  case less
  show ?case
  proof (cases es)
    case Nil
    then show ?thesis by simp
  next
    case (Cons e rest)
    show ?thesis
    proof (cases e)
      case (Tick now)
      have "length (withKey et c sn (exception_logs (run thai rest (checkSyncLog now s))))
           \<le> max 1 (length (withKey et c sn (exception_logs (checkSyncLog now s))))"
        using less.hyps[of rest "checkSyncLog now s"] less.prems tick_dedup(1)[OF less.prems(2)]
        by (simp add: Cons Tick)
      then show ?thesis
        by (simp add: Cons Tick tick_dedup(2)[OF less.prems(2)])
    next
      case (Accepted i)
      have "length (withKey et c sn (exception_logs (run thai rest (onAccepted i s))))
           \<le> max 1 (length (withKey et c sn (exception_logs (onAccepted i s))))"
        using less.hyps[of rest "onAccepted i s"] less.prems accepted_dedup(1)[OF less.prems(2)]
        by (simp add: Cons Accepted)
      then show ?thesis
        using accepted_dedup(2)[OF less.prems(2), of et c sn i] by (simp add: Cons Accepted)
    next
      case (Rejected i err onLine)
      from less.prems(1) obtain now es' where r: "rest = Create i now # es'" "serial es'"
        unfolding Cons Rejected by (rule serial_Rejected)
      define s' where "s' = onCreate i now (onRejected thai i err onLine s)"
      have h: "noneChecked s'"
        "length (withKey et c sn (exception_logs s')) \<le> max 1 (length (withKey et c sn (exception_logs s)))"
        using handler_dedup[OF less.prems(2), of i now thai err onLine et c sn]
        by (simp_all add: s'_def)
      have "length (withKey et c sn (exception_logs (run thai es' s')))
           \<le> max 1 (length (withKey et c sn (exception_logs s')))"
        using less.hyps[of es' s'] r(2) h(1) by (simp add: Cons r(1))
      then show ?thesis
        using h(2) by (simp add: Cons Rejected r(1) s'_def)
    next
      case (Create j now)
      then show ?thesis using less.prems(1) Cons by simp
    qed
  qed
qed

theorem serial_dedup_witness:
  "serial [Tick 0, Rejected 0 (Some ''Failed to fetch'') True, Create 0 1000,
           Rejected 1 (Some ''Failed to fetch'') True, Create 1 1001]
   \<and> noneChecked (freshSync [log1, log2])
   \<and> length
        (withKey ''NetworkOfflineError'' ''SYNC_NET_001'' ''AppComponent''
           (exception_logs
              (run keyAsText
                 [Tick 0, Rejected 0 (Some ''Failed to fetch'') True, Create 0 1000,
                  Rejected 1 (Some ''Failed to fetch'') True, Create 1 1001]
                 (freshSync [log1, log2]))))
       \<le> max 1
           (length
              (withKey ''NetworkOfflineError'' ''SYNC_NET_001'' ''AppComponent''
                 (exception_logs (freshSync [log1, log2]))))"
proof -
  have h1: "serial [Tick 0, Rejected 0 (Some ''Failed to fetch'') True, Create 0 1000,
           Rejected 1 (Some ''Failed to fetch'') True, Create 1 1001]"
    by simp
  have h2: "noneChecked (freshSync [log1, log2])"
    by (simp add: noneChecked_def freshSync_def)
  show ?thesis
    using h1 h2 serial_dedup[OF h1 h2, of "''NetworkOfflineError''" "''SYNC_NET_001''"
        "''AppComponent''" keyAsText]
    by blast
qed

end
